theory Spec2Isabelle
  imports Main
begin

section \<open>The image registry operator's controller (pkg/operator/controller.go)\<close>

text \<open>
  A shallow embedding of the reconciliation engine of the cluster image registry
  operator: \<^verbatim>\<open>createOrUpdateResources\<close>, \<^verbatim>\<open>sync\<close>, \<^verbatim>\<open>eventProcessor\<close> and the three
  functions of \<^verbatim>\<open>handler\<close>. Every call that leaves the controller (the generator, the
  listers, the remote store, the work queue, the log) is an event of a trace, in the order
  the source makes the calls; what such a call answers is read from a record of the
  collaborators, so that a pass is a function of the world it runs in.
\<close>

subsection \<open>Errors\<close>

text \<open>
  Go's \<^verbatim>\<open>error\<close> values, as far as the controller tells them apart:
  an API status error with its reason (what \<^verbatim>\<open>errors.IsNotFound\<close> and
  \<^verbatim>\<open>errors.IsConflict\<close> of apimachinery look at), the sentinel
  \<^verbatim>\<open>storage.ErrStorageNotConfigured\<close>, any other error by its message, the result of
  \<^verbatim>\<open>fmt.Errorf\<close> with the format and the error it prints with \<^verbatim>\<open>%s\<close> (a new error:
  \<^verbatim>\<open>%s\<close> does not wrap), and the controller's own \<^verbatim>\<open>permanentError{Err, Reason}\<close>.
\<close>

datatype error =
    StatusError string string
  | ErrStorageNotConfigured
  | ErrorString string
  | Errorf string error
  | permanentError (Err: error) (Reason: string)

definition newPermanentError :: "string \<Rightarrow> error \<Rightarrow> error" where
  "newPermanentError reason err = permanentError err reason"

fun IsNotFound :: "error \<Rightarrow> bool" where
  "IsNotFound (StatusError reason msg) = (reason = ''NotFound'')"
| "IsNotFound _ = False"

fun IsConflict :: "error \<Rightarrow> bool" where
  "IsConflict (StatusError reason msg) = (reason = ''Conflict'')"
| "IsConflict _ = False"

text \<open>The type assertion \<^verbatim>\<open>applyError.(permanentError)\<close> of sync, on a non-nil error.\<close>

fun isPermanentError :: "error \<Rightarrow> bool" where
  "isPermanentError (permanentError err reason) = True"
| "isPermanentError _ = False"

subsection \<open>Objects\<close>

text \<open>
  \<^verbatim>\<open>metav1.ObjectMeta\<close> with the fields the controller reads or writes, and the labels
  and annotations a metadata strategy may compare. \<^verbatim>\<open>Generation\<close> is an int64 that the
  controller only copies. \<^verbatim>\<open>DeletionTimestamp\<close> is a pointer: \<open>None\<close> is nil.
\<close>

record ObjectMeta =
  name :: string
  namespace :: string
  resourceVersion :: string
  generation :: int
  deletionTimestamp :: "nat option"
  finalizers :: "string list"
  labels :: "(string \<times> string) list"
  annotations :: "(string \<times> string) list"

text \<open>
  \<^verbatim>\<open>operatorapi.ManagementState\<close> is a string type; the three values the switch of sync
  names are its constants in openshift/api.
\<close>

type_synonym ManagementState = string

definition Managed :: ManagementState where "Managed = ''Managed''"
definition Unmanaged :: ManagementState where "Unmanaged = ''Unmanaged''"
definition Removed :: ManagementState where "Removed = ''Removed''"

text \<open>
  \<^verbatim>\<open>imageregistryv1.Config\<close>. Of the spec the controller reads the management state, of
  the status it writes the observed generation; the other fields of both are carried as
  one value each, compared with \<^verbatim>\<open>reflect.DeepEqual\<close> (here: equality).
\<close>

record ImageRegistrySpec =
  managementState :: ManagementState
  specFields :: string

record ImageRegistryStatus =
  observedGeneration :: int
  conditions :: "string list"

record Config =
  objectMeta :: ObjectMeta
  spec :: ImageRegistrySpec
  status :: ImageRegistryStatus

datatype Deployment = Deployment (availableReplicas: int)

subsection \<open>Events\<close>

datatype level = ErrorLevel | WarningLevel | InfoLevel | V nat

text \<open>A work queue item is an \<^verbatim>\<open>interface{}\<close>: a string, or something else.\<close>

datatype item = StringItem string | OtherItem

text \<open>
  What a pass does to the outside, in order. A log line keeps its level, its format and
  the errors among its arguments.
\<close>

datatype event =
    CallBootstrap
  | CallFinalizeResources Config
  | CallRemoveResources Config
  | CallGeneratorApply Config
  | CallSyncStatus Config "Deployment option" "error option"
  | CallUpdate Config
  | CallUpdateStatus Config
  | Klog level string "error list"
  | QueueAdd string
  | QueueAddRateLimited string
  | QueueForget item
  | QueueDone item

subsection \<open>The collaborators\<close>

text \<open>
  The functions and values the controller uses that are not in controller.go, each as
  what it answers when called. A function that is handed the pointer \<^verbatim>\<open>cr\<close> and may
  write through it returns the object it leaves behind.
  \<^item> \<open>finalizerToken\<close>: the name of the controller's finalizer;
  \<^item> \<open>getRegistryConfig\<close>: \<^verbatim>\<open>c.listers.RegistryConfigs.Get(...)\<close>;
  \<^item> \<open>bootstrap\<close>: \<^verbatim>\<open>c.Bootstrap()\<close>;
  \<^item> \<open>finalizeResources\<close>: \<^verbatim>\<open>c.finalizeResources(cr)\<close>;
  \<^item> \<open>removeResources\<close>: \<^verbatim>\<open>c.RemoveResources(cr)\<close>;
  \<^item> \<open>verifyResource\<close>: \<^verbatim>\<open>verifyResource(cr)\<close>, a check;
  \<^item> \<open>generatorApply\<close>: \<^verbatim>\<open>c.generator.Apply(cr)\<close>;
  \<^item> \<open>getDeployment\<close>: \<^verbatim>\<open>c.listers.Deployments.Get(...)\<close>;
  \<^item> \<open>syncStatus\<close>: \<^verbatim>\<open>c.syncStatus(cr, deploy, applyError)\<close>;
  \<^item> \<open>strategyMetadata\<close>: \<^verbatim>\<open>strategy.Metadata(&prevCR.ObjectMeta, &cr.ObjectMeta)\<close>,
    as the answer sync uses;
  \<^item> \<open>diffString\<close>: \<^verbatim>\<open>object.DiffString(prevCR, cr)\<close>;
  \<^item> \<open>update\<close>, \<open>updateStatus\<close>: the two calls of the remote store, answering with an
    error or with the object as stored.
\<close>

record env =
  finalizerToken :: string
  getRegistryConfig :: "error + Config"
  bootstrap :: "error option"
  finalizeResources :: "Config \<Rightarrow> error option"
  removeResources :: "Config \<Rightarrow> Config \<times> error option"
  verifyResource :: "Config \<Rightarrow> error option"
  generatorApply :: "Config \<Rightarrow> Config \<times> error option"
  getDeployment :: "error + Deployment"
  syncStatus :: "Config \<Rightarrow> Deployment option \<Rightarrow> error option \<Rightarrow> Config"
  strategyMetadata :: "ObjectMeta \<Rightarrow> ObjectMeta \<Rightarrow> bool"
  diffString :: "Config \<Rightarrow> Config \<Rightarrow> error + string"
  update :: "Config \<Rightarrow> error + Config"
  updateStatus :: "Config \<Rightarrow> error + Config"

subsection \<open>createOrUpdateResources\<close>

text \<open>
  Modelled from the spec: \<^verbatim>\<open>appendFinalizer\<close> is called by controller.go and defined
  elsewhere in the package. Section 4.4 of the specification: the controller's finalizer
  token is appended to the finalizer set if absent, and the set is left as it is if the
  token is present.
\<close>

definition appendFinalizer :: "string \<Rightarrow> Config \<Rightarrow> Config" where
  "appendFinalizer token cr =
     (if token \<in> set (finalizers (objectMeta cr)) then cr
      else cr\<lparr>objectMeta := (objectMeta cr)\<lparr>finalizers := finalizers (objectMeta cr) @ [token]\<rparr>\<rparr>)"

text \<open>
  Lines 96 to 112. The result is the object the call leaves behind, the events of the
  call and the error it returns.
\<close>

definition createOrUpdateResources :: "env \<Rightarrow> Config \<Rightarrow> Config \<times> event list \<times> error option" where
  "createOrUpdateResources e cr0 =
     (let cr = appendFinalizer (finalizerToken e) cr0 in
      case verifyResource e cr of
        Some err \<Rightarrow>
          (cr, [], Some (newPermanentError ''VerificationFailed''
                           (Errorf ''unable to complete resource: %s'' err)))
      | None \<Rightarrow>
          (case generatorApply e cr of
             (cr', err) \<Rightarrow>
               if err = Some ErrStorageNotConfigured
               then (cr', [CallGeneratorApply cr],
                     Some (newPermanentError ''StorageNotConfigured'' ErrStorageNotConfigured))
               else if err \<noteq> None then (cr', [CallGeneratorApply cr], err)
               else (cr', [CallGeneratorApply cr], None)))"

subsection \<open>sync\<close>

text \<open>
  Lines 130 to 140: the switch on the management state. The Removed case comes first, as
  in the source; an unrecognised state is logged as a warning and is no error.
\<close>

definition applyState :: "env \<Rightarrow> Config \<Rightarrow> Config \<times> event list \<times> error option" where
  "applyState e cr =
     (if managementState (spec cr) = Removed then
        (case removeResources e cr of (cr', err) \<Rightarrow> (cr', [CallRemoveResources cr], err))
      else if managementState (spec cr) = Managed then createOrUpdateResources e cr
      else if managementState (spec cr) = Unmanaged then (cr, [], None)
      else (cr, [Klog WarningLevel ''unknown custom resource state: %s'' []], None))"

text \<open>
  Lines 142 to 149: the deployment is read from the cache; not-found is the absent
  deployment, any other failure ends the pass.
\<close>

definition lookupDeployment :: "env \<Rightarrow> error + Deployment option" where
  "lookupDeployment e =
     (case getDeployment e of
        Inl err \<Rightarrow>
          if IsNotFound err then Inr None
          else Inl (Errorf ''failed to get %q deployment: %s'' err)
      | Inr deploy \<Rightarrow> Inr (Some deploy))"

text \<open>Lines 156 to 160 and 180 to 184: the difference is computed for the log only.\<close>

definition logDifference :: "env \<Rightarrow> Config \<Rightarrow> Config \<Rightarrow> string \<Rightarrow> event list" where
  "logDifference e prevCR cr fmt =
     (case diffString e prevCR cr of
        Inl err \<Rightarrow> [Klog ErrorLevel ''unable to calculate difference in %s: %s'' [err]]
      | Inr difference \<Rightarrow> [])
     @ [Klog InfoLevel fmt []]"

text \<open>
  Lines 153 to 175: the update of the whole object when the metadata or the spec changed.
  The result is an error, which ends the pass, or the working copy to go on with.
\<close>

definition updateStep :: "env \<Rightarrow> Config \<Rightarrow> Config \<Rightarrow> event list \<times> (error + Config)" where
  "updateStep e prevCR cr =
     (let metadataChanged = strategyMetadata e (objectMeta prevCR) (objectMeta cr);
          specChanged = (spec prevCR \<noteq> spec cr)
      in if metadataChanged \<or> specChanged then
           (case update e cr of
              Inl err \<Rightarrow>
                (logDifference e prevCR cr ''object changed: %s (metadata=%t, spec=%t): %s''
                   @ [CallUpdate cr]
                   @ (if \<not> IsConflict err
                      then [Klog ErrorLevel ''unable to update %s: %s'' [err]] else []),
                 Inl err)
            | Inr updatedCR \<Rightarrow>
                (logDifference e prevCR cr ''object changed: %s (metadata=%t, spec=%t): %s''
                   @ [CallUpdate cr],
                 Inr (cr\<lparr>objectMeta := (objectMeta cr)
                         \<lparr>resourceVersion := resourceVersion (objectMeta updatedCR)\<rparr>\<rparr>)))
         else ([], Inr cr))"

text \<open>
  Lines 177 to 195: the observed generation is set, and the status is written when it
  differs from the status before the pass.
\<close>

definition statusStep :: "env \<Rightarrow> Config \<Rightarrow> Config \<Rightarrow> event list \<times> error option" where
  "statusStep e prevCR cr0 =
     (let cr = cr0\<lparr>status := (status cr0)\<lparr>observedGeneration := generation (objectMeta cr0)\<rparr>\<rparr>;
          statusChanged = (status prevCR \<noteq> status cr)
      in if statusChanged then
           (case updateStatus e cr of
              Inl err \<Rightarrow>
                (logDifference e prevCR cr ''object changed: %s (status=%t): %s''
                   @ [CallUpdateStatus cr]
                   @ (if \<not> IsConflict err
                      then [Klog ErrorLevel ''unable to update status %s: %s'' [err]] else []),
                 Some err)
            | Inr stored \<Rightarrow>
                (logDifference e prevCR cr ''object changed: %s (status=%t): %s''
                   @ [CallUpdateStatus cr],
                 None))
         else ([], None))"

text \<open>Lines 197 to 201: a permanent error of the apply step is not returned.\<close>

definition passResult :: "error option \<Rightarrow> error option" where
  "passResult applyError =
     (case applyError of
        None \<Rightarrow> applyError
      | Some err \<Rightarrow> if \<not> isPermanentError err then applyError else None)"

text \<open>
  Lines 114 to 202. \<^verbatim>\<open>cr\<close> and \<^verbatim>\<open>prevCR\<close> are two deep copies of the cached object.
\<close>

definition sync :: "env \<Rightarrow> event list \<times> error option" where
  "sync e =
     (case getRegistryConfig e of
        Inl err \<Rightarrow>
          if IsNotFound err then ([CallBootstrap], bootstrap e)
          else ([], Some (Errorf ''failed to get %q registry operator resource: %s'' err))
      | Inr cached \<Rightarrow>
          (let cr = cached; prevCR = cached
           in if deletionTimestamp (objectMeta cr) \<noteq> None
              then ([CallFinalizeResources cr], finalizeResources e cr)
              else
                (case applyState e cr of
                   (cr1, ev1, applyError) \<Rightarrow>
                     (case lookupDeployment e of
                        Inl err \<Rightarrow> (ev1, Some err)
                      | Inr deploy \<Rightarrow>
                          (let cr2 = syncStatus e cr1 deploy applyError;
                               ev2 = ev1 @ [CallSyncStatus cr1 deploy applyError]
                           in case updateStep e prevCR cr2 of
                                (ev3, Inl err) \<Rightarrow> (ev2 @ ev3, Some err)
                              | (ev3, Inr cr3) \<Rightarrow>
                                  (case statusStep e prevCR cr3 of
                                     (ev4, Some err) \<Rightarrow> (ev2 @ ev3 @ ev4, Some err)
                                   | (ev4, None) \<Rightarrow>
                                       (ev2 @ ev3 @ ev4, passResult applyError)))))))"

subsection \<open>eventProcessor\<close>

definition workqueueKey :: string where
  "workqueueKey = ''changes''"

text \<open>
  Lines 211 to 228: what the consumer does with one item it got from the queue, in the
  world \<open>e\<close>. \<^verbatim>\<open>Done\<close> is deferred and comes last.
\<close>

definition processItem :: "env \<Rightarrow> item \<Rightarrow> event list" where
  "processItem e obj =
     [Klog (V 1) ''get event from workqueue'' []]
     @ (case obj of
          OtherItem \<Rightarrow>
            [QueueForget obj, Klog ErrorLevel ''expected string in workqueue but got %#v'' []]
        | StringItem key \<Rightarrow>
            (case sync e of
               (ev, Some err) \<Rightarrow>
                 ev @ [QueueAddRateLimited workqueueKey,
                       Klog ErrorLevel ''unable to sync: %s, requeuing'' [err]]
             | (ev, None) \<Rightarrow>
                 ev @ [QueueForget obj,
                       Klog InfoLevel ''event from workqueue successfully processed'' []]))
     @ [QueueDone obj]"

text \<open>
  Lines 204 to 230: the loop, over the items \<^verbatim>\<open>Get\<close> hands out, each with the world its
  pass runs in; the end of the list is the shutdown of the queue.
\<close>

fun eventProcessor :: "(item \<times> env) list \<Rightarrow> event list" where
  "eventProcessor [] = []"
| "eventProcessor ((obj, e) # rest) = processItem e obj @ eventProcessor rest"

subsection \<open>handler\<close>

text \<open>
  What an informer hands to a handler is an \<^verbatim>\<open>interface{}\<close>: a cluster operator, another
  API object (both implement \<^verbatim>\<open>metaapi.Object\<close>), the tombstone
  \<^verbatim>\<open>cache.DeletedFinalStateUnknown{Key, Obj}\<close>, which has no methods, or anything else.
\<close>

datatype obj =
    ClusterOperator ObjectMeta
  | Resource ObjectMeta
  | DeletedFinalStateUnknown string obj
  | NotAnObject

text \<open>The checked type assertion \<^verbatim>\<open>o.(metaapi.Object)\<close>: \<open>None\<close> when it is not ok.\<close>

fun asMetaObject :: "obj \<Rightarrow> ObjectMeta option" where
  "asMetaObject (ClusterOperator m) = Some m"
| "asMetaObject (Resource m) = Some m"
| "asMetaObject (DeletedFinalStateUnknown key inner) = None"
| "asMetaObject NotAnObject = None"

text \<open>\<^verbatim>\<open>kmeta.Accessor\<close> of apimachinery: the metadata of an API object, or an error.\<close>

definition Accessor :: "obj \<Rightarrow> error + ObjectMeta" where
  "Accessor x =
     (case asMetaObject x of
        Some m \<Rightarrow> Inr m
      | None \<Rightarrow> Inl (ErrorString ''object does not implement the Object interfaces''))"

text \<open>
  The test all three handlers make on \<^verbatim>\<open>o\<close>: it is a cluster operator and its name is not
  \<open>coName\<close>, the value of \<^verbatim>\<open>defaults.ImageRegistryClusterOperatorResourceName\<close>.
\<close>

fun otherClusterOperator :: "string \<Rightarrow> obj \<Rightarrow> bool" where
  "otherClusterOperator coName (ClusterOperator m) = (name m \<noteq> coName)"
| "otherClusterOperator coName _ = False"

text \<open>A handler returns, or panics at a type assertion that is not checked.\<close>

datatype outcome = Returns | Panics

text \<open>Lines 234 to 246.\<close>

definition AddFunc :: "string \<Rightarrow> obj \<Rightarrow> event list \<times> outcome" where
  "AddFunc coName o' =
     (if otherClusterOperator coName o' then ([], Returns)
      else case asMetaObject o' of
             None \<Rightarrow> ([], Panics)
           | Some obj \<Rightarrow>
               if namespace obj = ''kube-system'' \<and> name obj \<noteq> ''cluster-config-v1''
               then ([], Returns)
               else ([Klog (V 1) ''add event to workqueue due to %s (add)'' [],
                      QueueAdd workqueueKey], Returns))"

text \<open>Lines 247 to 274.\<close>

definition UpdateFunc :: "string \<Rightarrow> obj \<Rightarrow> obj \<Rightarrow> event list \<times> outcome" where
  "UpdateFunc coName o' n =
     (case Accessor n of
        Inl err \<Rightarrow> ([Klog ErrorLevel ''unable to get accessor for new object: %s'' [err]], Returns)
      | Inr newAccessor \<Rightarrow>
          (case Accessor o' of
             Inl err \<Rightarrow>
               ([Klog ErrorLevel ''unable to get accessor for old object: %s'' [err]], Returns)
           | Inr oldAccessor \<Rightarrow>
               (if resourceVersion newAccessor = resourceVersion oldAccessor then ([], Returns)
                else if otherClusterOperator coName o' then ([], Returns)
                else (case asMetaObject o' of
                        None \<Rightarrow> ([], Panics)
                      | Some obj \<Rightarrow>
                          (if namespace obj = ''kube-system'' \<and> name obj \<noteq> ''cluster-config-v1''
                           then ([], Returns)
                           else ([Klog (V 1) ''add event to workqueue due to %s (update)'' [],
                                  QueueAdd workqueueKey], Returns))))))"

text \<open>
  Lines 290 to 300: the rest of the delete handler, after \<^verbatim>\<open>object\<close> has been recovered
  with the events \<open>ev\<close>. The assertions of lines 290 and 295 are made on \<^verbatim>\<open>o\<close>, the
  notification as it came, and the one of line 295 is not checked.
\<close>

definition deleteTail :: "string \<Rightarrow> obj \<Rightarrow> event list \<Rightarrow> event list \<times> outcome" where
  "deleteTail coName o' ev =
     (if otherClusterOperator coName o' then (ev, Returns)
      else case asMetaObject o' of
             None \<Rightarrow> (ev, Panics)
           | Some obj \<Rightarrow>
               if namespace obj = ''kube-system'' \<and> name obj \<noteq> ''cluster-config-v1''
               then (ev, Returns)
               else (ev @ [Klog (V 1) ''add event to workqueue due to %s (delete)'' [],
                           QueueAdd workqueueKey], Returns))"

text \<open>Lines 275 to 301.\<close>

definition DeleteFunc :: "string \<Rightarrow> obj \<Rightarrow> event list \<times> outcome" where
  "DeleteFunc coName o' =
     (case asMetaObject o' of
        Some object \<Rightarrow> deleteTail coName o' []
      | None \<Rightarrow>
          (case o' of
             DeletedFinalStateUnknown key inner \<Rightarrow>
               (case asMetaObject inner of
                  None \<Rightarrow>
                    ([Klog ErrorLevel ''error decoding object tombstone, invalid type'' []],
                     Returns)
                | Some object \<Rightarrow>
                    deleteTail coName o'
                      [Klog (V 4) ''recovered deleted object %q from tombstone'' []])
           | _ \<Rightarrow> ([Klog ErrorLevel ''error decoding object, invalid type'' []], Returns)))"

subsection \<open>Observing a trace\<close>

fun isCallUpdate :: "event \<Rightarrow> bool" where
  "isCallUpdate (CallUpdate cr) = True"
| "isCallUpdate _ = False"

fun isCallUpdateStatus :: "event \<Rightarrow> bool" where
  "isCallUpdateStatus (CallUpdateStatus cr) = True"
| "isCallUpdateStatus _ = False"

fun isQueueEvent :: "event \<Rightarrow> bool" where
  "isQueueEvent (QueueAdd k) = True"
| "isQueueEvent (QueueAddRateLimited k) = True"
| "isQueueEvent (QueueForget i) = True"
| "isQueueEvent (QueueDone i) = True"
| "isQueueEvent _ = False"

subsection \<open>Example worlds\<close>

text \<open>
  A desired-state object as Bootstrap would leave it (Managed, no finalizer, generation 1,
  nothing observed yet), and a world in which every collaborator succeeds: validation
  passes, the generator applies without touching the object, no deployment is cached yet,
  the status computation records the reason of a permanent error in the conditions, the
  metadata strategy compares finalizers, labels and annotations, and the store accepts
  both writes, answering an update with a fresh version token.
\<close>

definition exampleConfig :: Config where
  "exampleConfig =
     \<lparr>objectMeta =
        \<lparr>name = ''cluster'', namespace = [], resourceVersion = ''1'', generation = 1,
         deletionTimestamp = None, finalizers = [], labels = [], annotations = []\<rparr>,
      spec = \<lparr>managementState = Managed, specFields = ''replicas=1''\<rparr>,
      status = \<lparr>observedGeneration = 0, conditions = []\<rparr>\<rparr>"

definition exampleEnv :: env where
  "exampleEnv =
     \<lparr>finalizerToken = ''imageregistry.operator.openshift.io/finalizer'',
      getRegistryConfig = Inr exampleConfig,
      bootstrap = None,
      finalizeResources = (\<lambda>cr. None),
      removeResources = (\<lambda>cr. (cr, None)),
      verifyResource = (\<lambda>cr. None),
      generatorApply = (\<lambda>cr. (cr, None)),
      getDeployment = Inl (StatusError ''NotFound'' ''deployment not found''),
      syncStatus = (\<lambda>cr deploy applyError.
        cr\<lparr>status := (status cr)
             \<lparr>conditions := (case applyError of
                               Some (permanentError err reason) \<Rightarrow> [reason]
                             | _ \<Rightarrow> [])\<rparr>\<rparr>),
      strategyMetadata = (\<lambda>old new.
        finalizers old \<noteq> finalizers new \<or> labels old \<noteq> labels new
          \<or> annotations old \<noteq> annotations new),
      diffString = (\<lambda>prevCR cr. Inr ''difference''),
      update = (\<lambda>cr. Inr (cr\<lparr>objectMeta := (objectMeta cr)\<lparr>resourceVersion := ''2''\<rparr>\<rparr>)),
      updateStatus = (\<lambda>cr. Inr cr)\<rparr>"

text \<open>The same world with a spec that fails validation.\<close>

definition envInvalidSpec :: env where
  "envInvalidSpec = exampleEnv\<lparr>verifyResource := (\<lambda>cr. Some (ErrorString ''replicas must be positive''))\<rparr>"

text \<open>The same world with a generator that finds no storage configured.\<close>

definition envNoStorage :: env where
  "envNoStorage = exampleEnv\<lparr>generatorApply := (\<lambda>cr. (cr, Some ErrStorageNotConfigured))\<rparr>"

text \<open>The same world with a generator that fails for another reason.\<close>

definition envApplyFails :: env where
  "envApplyFails = exampleEnv\<lparr>generatorApply := (\<lambda>cr. (cr, Some (ErrorString ''connection refused'')))\<rparr>"

text \<open>
  The object after a pass of that world: the finalizer is there and the generation is
  observed.
\<close>

definition settledConfig :: Config where
  "settledConfig =
     exampleConfig\<lparr>objectMeta := (objectMeta exampleConfig)
                      \<lparr>finalizers := [''imageregistry.operator.openshift.io/finalizer'']\<rparr>,
                   status := \<lparr>observedGeneration = 1, conditions = []\<rparr>\<rparr>"

definition envSettled :: env where
  "envSettled = exampleEnv\<lparr>getRegistryConfig := Inr settledConfig\<rparr>"

text \<open>A world in which the object is being deleted and the teardown is not complete.\<close>

definition envDeleting :: env where
  "envDeleting =
     exampleEnv
       \<lparr>getRegistryConfig :=
          Inr (settledConfig\<lparr>objectMeta := (objectMeta settledConfig)
                               \<lparr>deletionTimestamp := Some 1700000000\<rparr>\<rparr>),
        finalizeResources := (\<lambda>cr. Some (ErrorString ''deployment still exists''))\<rparr>"

text \<open>No storage is configured, and the read of the deployment fails.\<close>

definition envDeploymentReadFails :: env where
  "envDeploymentReadFails = envNoStorage\<lparr>getDeployment := Inl (ErrorString ''cache is not synced'')\<rparr>"

text \<open>The metadata of the registry's deployment, as a notification carries it.\<close>

definition deploymentMeta :: ObjectMeta where
  "deploymentMeta =
     \<lparr>name = ''image-registry'', namespace = ''openshift-image-registry'',
      resourceVersion = ''41'', generation = 3, deletionTimestamp = None, finalizers = [],
      labels = [], annotations = []\<rparr>"

section \<open>Properties\<close>

subsection \<open>Facts about the stages of a pass\<close>

lemmas example_defs = exampleConfig_def exampleEnv_def envInvalidSpec_def envNoStorage_def
  envApplyFails_def settledConfig_def envSettled_def envDeleting_def
  envDeploymentReadFails_def deploymentMeta_def

lemmas model_defs = sync_def applyState_def createOrUpdateResources_def appendFinalizer_def
  lookupDeployment_def updateStep_def statusStep_def logDifference_def passResult_def
  processItem_def newPermanentError_def workqueueKey_def Managed_def Removed_def Unmanaged_def
  Let_def

lemma createOrUpdateResources_events:
  "ev \<in> set (fst (snd (createOrUpdateResources e cr))) \<Longrightarrow> \<exists>c. ev = CallGeneratorApply c"
  by (auto simp: createOrUpdateResources_def Let_def split: option.splits prod.splits if_splits)

lemma applyState_events:
  "ev \<in> set (fst (snd (applyState e cr))) \<Longrightarrow>
     (\<exists>c. ev = CallRemoveResources c) \<or> (\<exists>c. ev = CallGeneratorApply c)
     \<or> ev = Klog WarningLevel ''unknown custom resource state: %s'' []"
  by (auto simp: applyState_def split: prod.splits if_splits dest: createOrUpdateResources_events)

lemma logDifference_events:
  "ev \<in> set (logDifference e prevCR cr fmt) \<Longrightarrow>
     (\<exists>err. ev = Klog ErrorLevel ''unable to calculate difference in %s: %s'' [err])
     \<or> ev = Klog InfoLevel fmt []"
  by (auto simp: logDifference_def split: sum.splits)

lemma updateStep_events:
  "ev \<in> set (fst (updateStep e prevCR cr)) \<Longrightarrow>
     (\<exists>err. ev = Klog ErrorLevel ''unable to calculate difference in %s: %s'' [err])
     \<or> ev = Klog InfoLevel ''object changed: %s (metadata=%t, spec=%t): %s'' []
     \<or> ev = CallUpdate cr
     \<or> (\<exists>err. ev = Klog ErrorLevel ''unable to update %s: %s'' [err])"
  by (auto simp: updateStep_def Let_def split: sum.splits if_splits dest: logDifference_events)

lemma statusStep_events:
  "ev \<in> set (fst (statusStep e prevCR cr)) \<Longrightarrow>
     (\<exists>err. ev = Klog ErrorLevel ''unable to calculate difference in %s: %s'' [err])
     \<or> ev = Klog InfoLevel ''object changed: %s (status=%t): %s'' []
     \<or> ev = CallUpdateStatus
              (cr\<lparr>status := (status cr)\<lparr>observedGeneration := generation (objectMeta cr)\<rparr>\<rparr>)
     \<or> (\<exists>err. ev = Klog ErrorLevel ''unable to update status %s: %s'' [err])"
  by (auto simp: statusStep_def Let_def split: sum.splits if_splits dest: logDifference_events)

text \<open>A pass that is not a deletion and reads the deployment goes through the two writes.\<close>

lemma sync_not_deleting:
  assumes "getRegistryConfig e = Inr c0" and "deletionTimestamp (objectMeta c0) = None"
    and "applyState e c0 = (cr1, ev1, applyError)" and "lookupDeployment e = Inr deploy"
  shows "sync e =
     (case updateStep e c0 (syncStatus e cr1 deploy applyError) of
        (ev3, Inl err) \<Rightarrow> (ev1 @ [CallSyncStatus cr1 deploy applyError] @ ev3, Some err)
      | (ev3, Inr cr3) \<Rightarrow>
          (case statusStep e c0 cr3 of
             (ev4, Some err) \<Rightarrow> (ev1 @ [CallSyncStatus cr1 deploy applyError] @ ev3 @ ev4, Some err)
           | (ev4, None) \<Rightarrow>
               (ev1 @ [CallSyncStatus cr1 deploy applyError] @ ev3 @ ev4, passResult applyError)))"
  using assms by (simp add: sync_def Let_def split: prod.splits sum.splits option.splits)

lemma processItem_string:
  "processItem e (StringItem key) =
     Klog (V 1) ''get event from workqueue'' [] # fst (sync e)
     @ (case snd (sync e) of
          Some err \<Rightarrow> [QueueAddRateLimited workqueueKey,
                       Klog ErrorLevel ''unable to sync: %s, requeuing'' [err]]
        | None \<Rightarrow> [QueueForget (StringItem key),
                   Klog InfoLevel ''event from workqueue successfully processed'' []])
     @ [QueueDone (StringItem key)]"
  by (simp add: processItem_def split: prod.splits option.splits)

text \<open>sync itself never touches the queue.\<close>

lemma sync_no_queue_events:
  assumes "ev \<in> set (fst (sync e))"
  shows "\<not> isQueueEvent ev"
proof (cases "getRegistryConfig e")
  case (Inl err)
  with assms show ?thesis by (auto simp: sync_def split: if_splits)
next
  case (Inr c0)
  show ?thesis
  proof (cases "deletionTimestamp (objectMeta c0)")
    case (Some t)
    with Inr assms show ?thesis by (auto simp: sync_def)
  next
    case None
    obtain cr1 ev1 applyError where a: "applyState e c0 = (cr1, ev1, applyError)"
      by (cases "applyState e c0") auto
    have ev1: "\<And>x. x \<in> set ev1 \<Longrightarrow> \<not> isQueueEvent x"
    proof -
      fix x assume "x \<in> set ev1"
      with a have "x \<in> set (fst (snd (applyState e c0)))" by simp
      from applyState_events [OF this] show "\<not> isQueueEvent x" by auto
    qed
    show ?thesis
    proof (cases "lookupDeployment e")
      case (Inl err)
      with Inr None a assms ev1 show ?thesis by (auto simp: sync_def)
    next
      case (Inr deploy)
      note s = sync_not_deleting [OF \<open>getRegistryConfig e = Inr c0\<close> None a Inr]
      obtain ev3 r3 where u: "updateStep e c0 (syncStatus e cr1 deploy applyError) = (ev3, r3)"
        by (cases "updateStep e c0 (syncStatus e cr1 deploy applyError)") auto
      have ev3: "\<And>x. x \<in> set ev3 \<Longrightarrow> \<not> isQueueEvent x"
      proof -
        fix x assume "x \<in> set ev3"
        with u have "x \<in> set (fst (updateStep e c0 (syncStatus e cr1 deploy applyError)))"
          by simp
        from updateStep_events [OF this] show "\<not> isQueueEvent x" by auto
      qed
      show ?thesis
      proof (cases r3)
        case (Inl err)
        with s u assms ev1 ev3 show ?thesis by auto
      next
        case (Inr cr3)
        obtain ev4 r4 where t: "statusStep e c0 cr3 = (ev4, r4)"
          by (cases "statusStep e c0 cr3") auto
        have ev4: "\<And>x. x \<in> set ev4 \<Longrightarrow> \<not> isQueueEvent x"
        proof -
          fix x assume "x \<in> set ev4"
          with t have "x \<in> set (fst (statusStep e c0 cr3))" by simp
          from statusStep_events [OF this] show "\<not> isQueueEvent x" by auto
        qed
        from s u Inr t assms ev1 ev3 ev4 show ?thesis
          by (cases r4) auto
      qed
    qed
  qed
qed

subsection \<open>Error classification\<close>

text \<open>
  Claim C3. For every object handed to createOrUpdateResources (sync does so in the
  Managed state): when validation fails the result is a permanent failure with the reason
  VerificationFailed and the generator's apply step is not called; when validation
  succeeds and the generator answers with the storage-not-configured sentinel the result
  is a permanent failure with the reason StorageNotConfigured; any other error of the
  generator is returned as it is.
\<close>

theorem createOrUpdateResources_classifies:
  "(verifyResource e (appendFinalizer (finalizerToken e) cr) = Some verr \<longrightarrow>
      snd (snd (createOrUpdateResources e cr)) =
        Some (permanentError (Errorf ''unable to complete resource: %s'' verr) ''VerificationFailed'')
      \<and> (\<forall>c. CallGeneratorApply c \<notin> set (fst (snd (createOrUpdateResources e cr)))))
   \<and> (verifyResource e (appendFinalizer (finalizerToken e) cr) = None \<longrightarrow>
        (snd (generatorApply e (appendFinalizer (finalizerToken e) cr)) = Some ErrStorageNotConfigured \<longrightarrow>
           snd (snd (createOrUpdateResources e cr)) =
             Some (permanentError ErrStorageNotConfigured ''StorageNotConfigured''))
        \<and> (\<forall>gerr. snd (generatorApply e (appendFinalizer (finalizerToken e) cr)) = Some gerr
               \<and> gerr \<noteq> ErrStorageNotConfigured \<longrightarrow>
             snd (snd (createOrUpdateResources e cr)) = Some gerr)
        \<and> (snd (generatorApply e (appendFinalizer (finalizerToken e) cr)) = None \<longrightarrow>
             snd (snd (createOrUpdateResources e cr)) = None))"
  by (auto simp: createOrUpdateResources_def newPermanentError_def Let_def split: prod.splits)

theorem createOrUpdateResources_classifies_witness:
  "snd (snd (createOrUpdateResources envInvalidSpec exampleConfig)) =
     Some (permanentError
             (Errorf ''unable to complete resource: %s'' (ErrorString ''replicas must be positive''))
             ''VerificationFailed'')
   \<and> CallGeneratorApply (appendFinalizer (finalizerToken envInvalidSpec) exampleConfig)
        \<notin> set (fst (snd (createOrUpdateResources envInvalidSpec exampleConfig)))
   \<and> snd (snd (createOrUpdateResources envNoStorage exampleConfig)) =
        Some (permanentError ErrStorageNotConfigured ''StorageNotConfigured'')
   \<and> snd (snd (createOrUpdateResources envApplyFails exampleConfig)) =
        Some (ErrorString ''connection refused'')"
  using createOrUpdateResources_classifies
          [of envInvalidSpec exampleConfig "ErrorString ''replicas must be positive''"]
        createOrUpdateResources_classifies [of envNoStorage exampleConfig]
        createOrUpdateResources_classifies [of envApplyFails exampleConfig]
  by (simp add: exampleConfig_def exampleEnv_def envInvalidSpec_def envNoStorage_def
        envApplyFails_def)

text \<open>
  Claim C4. A permanent failure of the apply or remove step, when every later step of the
  pass succeeds, is not returned: sync returns nil. Whenever sync returns nil the
  consumer forgets the item and adds nothing to the queue; whenever sync returns an error
  the consumer adds the sentinel key again, rate limited, and forgets nothing.
\<close>

theorem sync_result_decides_requeue:
  "(snd (sync e) = None \<longrightarrow>
      QueueForget (StringItem key) \<in> set (processItem e (StringItem key))
      \<and> (\<forall>k. QueueAddRateLimited k \<notin> set (processItem e (StringItem key)))
      \<and> (\<forall>k. QueueAdd k \<notin> set (processItem e (StringItem key))))
   \<and> (\<forall>err. snd (sync e) = Some err \<longrightarrow>
      QueueAddRateLimited workqueueKey \<in> set (processItem e (StringItem key))
      \<and> (\<forall>i. QueueForget i \<notin> set (processItem e (StringItem key))))
   \<and> (getRegistryConfig e = Inr c0 \<and> deletionTimestamp (objectMeta c0) = None
       \<and> applyState e c0 = (cr1, ev1, Some perr) \<and> isPermanentError perr
       \<and> lookupDeployment e = Inr deploy
       \<and> updateStep e c0 (syncStatus e cr1 deploy (Some perr)) = (ev3, Inr cr3)
       \<and> statusStep e c0 cr3 = (ev4, None)
      \<longrightarrow> snd (sync e) = None)"
proof -
  have q: "\<And>ev. ev \<in> set (fst (sync e)) \<Longrightarrow> \<not> isQueueEvent ev"
    by (rule sync_no_queue_events)
  have a: "snd (sync e) = None \<longrightarrow>
      QueueForget (StringItem key) \<in> set (processItem e (StringItem key))
      \<and> (\<forall>k. QueueAddRateLimited k \<notin> set (processItem e (StringItem key)))
      \<and> (\<forall>k. QueueAdd k \<notin> set (processItem e (StringItem key)))"
    by (auto simp: processItem_string dest: q)
  have b: "\<forall>err. snd (sync e) = Some err \<longrightarrow>
      QueueAddRateLimited workqueueKey \<in> set (processItem e (StringItem key))
      \<and> (\<forall>i. QueueForget i \<notin> set (processItem e (StringItem key)))"
    by (auto simp: processItem_string dest: q)
  have c: "getRegistryConfig e = Inr c0 \<and> deletionTimestamp (objectMeta c0) = None
       \<and> applyState e c0 = (cr1, ev1, Some perr) \<and> isPermanentError perr
       \<and> lookupDeployment e = Inr deploy
       \<and> updateStep e c0 (syncStatus e cr1 deploy (Some perr)) = (ev3, Inr cr3)
       \<and> statusStep e c0 cr3 = (ev4, None)
      \<longrightarrow> snd (sync e) = None"
    by (auto simp: sync_not_deleting passResult_def)
  from a b c show ?thesis by blast
qed

theorem sync_result_decides_requeue_witness:
  "getRegistryConfig envNoStorage = Inr exampleConfig
   \<and> deletionTimestamp (objectMeta exampleConfig) = None
   \<and> snd (snd (applyState envNoStorage exampleConfig)) =
       Some (permanentError ErrStorageNotConfigured ''StorageNotConfigured'')
   \<and> isPermanentError (permanentError ErrStorageNotConfigured ''StorageNotConfigured'')
   \<and> lookupDeployment envNoStorage = Inr None
   \<and> snd (sync envNoStorage) = None
   \<and> QueueForget (StringItem ''changes'') \<in> set (processItem envNoStorage (StringItem ''changes''))
   \<and> (\<forall>k. QueueAddRateLimited k \<notin> set (processItem envNoStorage (StringItem ''changes'')))
   \<and> snd (sync envApplyFails) = Some (ErrorString ''connection refused'')
   \<and> QueueAddRateLimited workqueueKey \<in> set (processItem envApplyFails (StringItem ''changes''))
   \<and> (\<forall>i. QueueForget i \<notin> set (processItem envApplyFails (StringItem ''changes'')))"
proof -
  let ?perr = "permanentError ErrStorageNotConfigured ''StorageNotConfigured''"
  let ?cr1 = "fst (applyState envNoStorage exampleConfig)"
  let ?ev1 = "fst (snd (applyState envNoStorage exampleConfig))"
  let ?u = "updateStep envNoStorage exampleConfig (syncStatus envNoStorage ?cr1 None (Some ?perr))"
  let ?cr3 = "projr (snd ?u)"
  let ?t = "statusStep envNoStorage exampleConfig ?cr3"
  have h1: "getRegistryConfig envNoStorage = Inr exampleConfig
     \<and> deletionTimestamp (objectMeta exampleConfig) = None"
    by (simp add: example_defs)
  have h2: "applyState envNoStorage exampleConfig = (?cr1, ?ev1, Some ?perr)"
    by (simp add: example_defs model_defs)
  have h3: "snd (snd (applyState envNoStorage exampleConfig)) = Some ?perr"
    using h2 by (metis snd_conv)
  have h4: "isPermanentError ?perr" by simp
  have h5: "lookupDeployment envNoStorage = Inr None"
    by (simp add: example_defs lookupDeployment_def)
  have h6: "?u = (fst ?u, Inr ?cr3)"
    by (simp add: example_defs model_defs)
  have h7: "?t = (fst ?t, None)"
    by (simp add: example_defs model_defs)
  have p: "snd (sync envNoStorage) = None"
    using sync_result_decides_requeue
            [of envNoStorage "''changes''" exampleConfig ?cr1 ?ev1 ?perr None "fst ?u" ?cr3 "fst ?t"]
          h1 h2 h4 h5 h6 h7
    by blast
  have f: "snd (sync envApplyFails) = Some (ErrorString ''connection refused'')"
    by (simp add: example_defs model_defs)
  from sync_result_decides_requeue
         [of envNoStorage "''changes''" exampleConfig ?cr1 ?ev1 ?perr None "fst ?u" ?cr3 "fst ?t"]
       sync_result_decides_requeue
         [of envApplyFails "''changes''" exampleConfig ?cr1 ?ev1 ?perr None "fst ?u" ?cr3 "fst ?t"]
       h1 h3 h4 h5 p f
  show ?thesis by blast
qed

subsection \<open>The deletion branch and the read of the deployment\<close>

text \<open>
  Claim C9. When the deletion marker of the fetched object is set, the pass is the call of
  the finalization and nothing else: no dispatch on the management state, no status
  computation, no update and no status update. The result of the pass is the result of
  the finalization, whatever error that is, so a failure of the finalization makes the
  consumer add the sentinel key again, rate limited.
\<close>

theorem sync_deleting_only_finalizes:
  "getRegistryConfig e = Inr c0 \<and> deletionTimestamp (objectMeta c0) = Some t
   \<longrightarrow> sync e = ([CallFinalizeResources c0], finalizeResources e c0)
       \<and> (\<forall>err. finalizeResources e c0 = Some err \<longrightarrow>
            snd (sync e) = Some err
            \<and> QueueAddRateLimited workqueueKey \<in> set (processItem e (StringItem key))
            \<and> (\<forall>i. QueueForget i \<notin> set (processItem e (StringItem key))))"
  by (auto simp: sync_def processItem_string)

theorem sync_deleting_only_finalizes_witness:
  "sync envDeleting =
     ([CallFinalizeResources
         (settledConfig\<lparr>objectMeta := (objectMeta settledConfig)
                          \<lparr>deletionTimestamp := Some 1700000000\<rparr>\<rparr>)],
      Some (ErrorString ''deployment still exists''))
   \<and> QueueAddRateLimited workqueueKey \<in> set (processItem envDeleting (StringItem ''changes''))
   \<and> QueueForget (StringItem ''changes'') \<notin> set (processItem envDeleting (StringItem ''changes''))"
  using sync_deleting_only_finalizes
          [of envDeleting
              "settledConfig\<lparr>objectMeta := (objectMeta settledConfig)
                               \<lparr>deletionTimestamp := Some 1700000000\<rparr>\<rparr>"
              1700000000 "''changes''"]
  by (simp add: example_defs)

text \<open>
  Claim C10. When the read of the deployment fails with an error that is not not-found,
  the pass ends there: its events are those of the apply or remove step, with no status
  computation, no update and no status update, and its result is the read error (as
  sync formats it), whatever the apply step returned, a permanent error included; the
  consumer adds the sentinel key again.
\<close>

theorem sync_deployment_read_failure:
  "getRegistryConfig e = Inr c0 \<and> deletionTimestamp (objectMeta c0) = None
     \<and> getDeployment e = Inl derr \<and> \<not> IsNotFound derr
   \<longrightarrow> sync e = (fst (snd (applyState e c0)),
                 Some (Errorf ''failed to get %q deployment: %s'' derr))
       \<and> (\<forall>c d a. CallSyncStatus c d a \<notin> set (fst (sync e)))
       \<and> (\<forall>c. CallUpdate c \<notin> set (fst (sync e)))
       \<and> (\<forall>c. CallUpdateStatus c \<notin> set (fst (sync e)))
       \<and> QueueAddRateLimited workqueueKey \<in> set (processItem e (StringItem key))
       \<and> (\<forall>i. QueueForget i \<notin> set (processItem e (StringItem key)))"
proof (intro impI, elim conjE)
  assume f: "getRegistryConfig e = Inr c0" and d: "deletionTimestamp (objectMeta c0) = None"
    and g: "getDeployment e = Inl derr" and n: "\<not> IsNotFound derr"
  have s: "sync e = (fst (snd (applyState e c0)),
                     Some (Errorf ''failed to get %q deployment: %s'' derr))"
    using f d g n by (simp add: sync_def lookupDeployment_def split: prod.splits)
  have ev: "\<And>x. x \<in> set (fst (sync e)) \<Longrightarrow>
     (\<exists>c. x = CallRemoveResources c) \<or> (\<exists>c. x = CallGeneratorApply c)
     \<or> x = Klog WarningLevel ''unknown custom resource state: %s'' []"
    using s applyState_events [of _ e c0] by simp
  have w: "(\<forall>c d a. CallSyncStatus c d a \<notin> set (fst (sync e)))
       \<and> (\<forall>c. CallUpdate c \<notin> set (fst (sync e)))
       \<and> (\<forall>c. CallUpdateStatus c \<notin> set (fst (sync e)))"
    using ev by blast
  have q: "QueueAddRateLimited workqueueKey \<in> set (processItem e (StringItem key))
       \<and> (\<forall>i. QueueForget i \<notin> set (processItem e (StringItem key)))"
  proof -
    have r: "snd (sync e) = Some (Errorf ''failed to get %q deployment: %s'' derr)"
      using s by simp
    show ?thesis by (auto simp: processItem_string r dest: sync_no_queue_events)
  qed
  from s w q show "sync e = (fst (snd (applyState e c0)),
                 Some (Errorf ''failed to get %q deployment: %s'' derr))
       \<and> (\<forall>c d a. CallSyncStatus c d a \<notin> set (fst (sync e)))
       \<and> (\<forall>c. CallUpdate c \<notin> set (fst (sync e)))
       \<and> (\<forall>c. CallUpdateStatus c \<notin> set (fst (sync e)))
       \<and> QueueAddRateLimited workqueueKey \<in> set (processItem e (StringItem key))
       \<and> (\<forall>i. QueueForget i \<notin> set (processItem e (StringItem key)))"
    by blast
qed

theorem sync_deployment_read_failure_witness:
  "getRegistryConfig envDeploymentReadFails = Inr exampleConfig
   \<and> deletionTimestamp (objectMeta exampleConfig) = None
   \<and> getDeployment envDeploymentReadFails = Inl (ErrorString ''cache is not synced'')
   \<and> \<not> IsNotFound (ErrorString ''cache is not synced'')
   \<and> snd (snd (applyState envDeploymentReadFails exampleConfig)) =
       Some (permanentError ErrStorageNotConfigured ''StorageNotConfigured'')
   \<and> sync envDeploymentReadFails =
       (fst (snd (applyState envDeploymentReadFails exampleConfig)),
        Some (Errorf ''failed to get %q deployment: %s'' (ErrorString ''cache is not synced'')))
   \<and> (\<forall>c d a. CallSyncStatus c d a \<notin> set (fst (sync envDeploymentReadFails)))
   \<and> (\<forall>c. CallUpdate c \<notin> set (fst (sync envDeploymentReadFails)))
   \<and> (\<forall>c. CallUpdateStatus c \<notin> set (fst (sync envDeploymentReadFails)))
   \<and> QueueAddRateLimited workqueueKey
        \<in> set (processItem envDeploymentReadFails (StringItem ''changes''))"
proof -
  have h: "getRegistryConfig envDeploymentReadFails = Inr exampleConfig
     \<and> deletionTimestamp (objectMeta exampleConfig) = None
     \<and> getDeployment envDeploymentReadFails = Inl (ErrorString ''cache is not synced'')
     \<and> \<not> IsNotFound (ErrorString ''cache is not synced'')"
    by (simp add: example_defs)
  have a: "snd (snd (applyState envDeploymentReadFails exampleConfig)) =
       Some (permanentError ErrStorageNotConfigured ''StorageNotConfigured'')"
    by (simp add: example_defs model_defs)
  from sync_deployment_read_failure
         [of envDeploymentReadFails exampleConfig "ErrorString ''cache is not synced''" "''changes''"]
       h a
  show ?thesis by blast
qed

subsection \<open>The event funnel\<close>

text \<open>
  Claim C5. An update notification whose old and new objects carry equal resource
  versions is discarded by the update handler: the handler returns with no event at all,
  so nothing is added to the queue, whatever the kind, the name and the namespace of the
  object.
\<close>

theorem UpdateFunc_echo_discarded:
  "Accessor old = Inr oldAccessor \<and> Accessor new = Inr newAccessor
     \<and> resourceVersion newAccessor = resourceVersion oldAccessor
   \<longrightarrow> UpdateFunc coName old new = ([], Returns)"
  by (simp add: UpdateFunc_def)

theorem UpdateFunc_echo_discarded_witness:
  "Accessor (Resource deploymentMeta) = Inr deploymentMeta
   \<and> Accessor (Resource (deploymentMeta\<lparr>labels := [(''app'', ''registry'')]\<rparr>))
        = Inr (deploymentMeta\<lparr>labels := [(''app'', ''registry'')]\<rparr>)
   \<and> resourceVersion (deploymentMeta\<lparr>labels := [(''app'', ''registry'')]\<rparr>)
        = resourceVersion deploymentMeta
   \<and> UpdateFunc ''image-registry'' (Resource deploymentMeta)
        (Resource (deploymentMeta\<lparr>labels := [(''app'', ''registry'')]\<rparr>)) = ([], Returns)"
  using UpdateFunc_echo_discarded
          [of "Resource deploymentMeta" deploymentMeta
              "Resource (deploymentMeta\<lparr>labels := [(''app'', ''registry'')]\<rparr>)"
              "deploymentMeta\<lparr>labels := [(''app'', ''registry'')]\<rparr>" "''image-registry''"]
  by (simp add: Accessor_def)

text \<open>
  Claim C2. The claim is that the delete handler returns on every notification, a
  tombstone included. The code does not: for a tombstone that wraps an API object the
  handler recovers the object (lines 278 to 288) and then asserts, unchecked, that the
  notification itself is an API object (line 295); the tombstone is none, and the handler
  panics after the log line of the recovery, with nothing added to the queue.
\<close>

theorem DeleteFunc_tombstone_panics:
  "DeleteFunc coName (DeletedFinalStateUnknown key (Resource m)) =
     ([Klog (V 4) ''recovered deleted object %q from tombstone'' []], Panics)"
  by (simp add: DeleteFunc_def deleteTail_def)

theorem DeleteFunc_tombstone_panics_witness:
  "snd (DeleteFunc ''image-registry''
          (DeletedFinalStateUnknown ''openshift-image-registry/image-registry''
             (Resource deploymentMeta))) = Panics"
  using DeleteFunc_tombstone_panics
          [of "''image-registry''" "''openshift-image-registry/image-registry''" deploymentMeta]
  by simp

end
